theory Spec2Isabelle
  imports Complex_Main
begin

section \<open>Bangalore house price service: data model\<close>

text \<open>
  The development embeds \<^verbatim>\<open>src/server/main.py\<close> (the FastAPI service) and the function
  \<^verbatim>\<open>validate_inputs\<close> of \<^verbatim>\<open>src/frontend/app_ui.py\<close> (the Streamlit form).

  Conventions of the embedding.
  \<^item> A Python \<^verbatim>\<open>int\<close> is an \<^typ>\<open>int\<close>. A Python \<^verbatim>\<open>float\<close> is a \<^typ>\<open>real\<close>: rounding of
    binary64 arithmetic, infinities and NaN are outside the model.
  \<^item> A raised exception is the \<open>Inl\<close> branch of a sum; \<open>Inr\<close> is a normal return.
  \<^item> The module globals \<^verbatim>\<open>MODEL\<close> and \<^verbatim>\<open>FEATURE_ORDER\<close> are a record that every function
    reading them receives as an argument.
  \<^item> The trained model is opaque: a function from the array it is given to either an
    exception or the array of predictions it returns.
  \<^item> The calls made to \<^verbatim>\<open>MODEL.predict\<close> are recorded: each function that may call it
    returns the list of arrays it passed, next to its result.
  \<^item> What pydantic and FastAPI do with the declarations of the source (checking the
    \<^verbatim>\<open>Field\<close>, \<^verbatim>\<open>Path\<close> and \<^verbatim>\<open>Query\<close> bounds, running an \<^verbatim>\<open>after\<close> validator only when every
    field passed, answering 422 to a request that fails validation, the status of an
    \<^verbatim>\<open>HTTPException\<close>, 500 to any other exception leaving a handler) is written out in
    \<open>field_errors\<close>, \<open>param_errors\<close>, \<open>PredictRequest_init\<close>, \<open>respond\<close> and the two
    \<open>route_\<close> definitions. Requests are taken as already parsed: five values of the
    declared types.
\<close>

subsection \<open>Exceptions\<close>

datatype constraint = Ge int | Le int | Gt real

text \<open>One entry of a pydantic validation error: a field that broke a bound, or the
  message of a \<^verbatim>\<open>ValueError\<close> raised by a model validator.\<close>

datatype error_item = FieldConstraint string constraint | ValueErrorItem string

datatype py_exception =
    RuntimeError string
  | KeyError string
  | IndexError string
  | ZeroDivisionError string
  | ValueError string
  | ValidationError "error_item list"
  | HTTPException nat string
  | OtherException string

text \<open>A natural number in decimal, as an f-string prints a status code.\<close>

function str_nat :: "nat \<Rightarrow> string" where
  "str_nat n =
     (if n < 10 then [''0123456789'' ! n]
      else str_nat (n div 10) @ [''0123456789'' ! (n mod 10)])"
  by pat_completeness auto
termination
  by (relation "measure id") auto

declare str_nat.simps [simp del]

text \<open>\<^verbatim>\<open>str(e)\<close>, as the f-string of \<^verbatim>\<open>predict\<close> formats it. The \<^verbatim>\<open>str\<close> of a
  \<^verbatim>\<open>KeyError\<close> is the \<^verbatim>\<open>repr\<close> of the key, in single quotes; that of an
  \<^verbatim>\<open>HTTPException\<close> is its status, a colon and its detail. The text of a pydantic
  \<^verbatim>\<open>ValidationError\<close> is a placeholder: the \<^verbatim>\<open>try\<close> of \<^verbatim>\<open>predict\<close> could only meet one
  that the model itself raised.\<close>

fun exc_str :: "py_exception \<Rightarrow> string" where
  "exc_str (RuntimeError m) = m"
| "exc_str (KeyError k) = [CHR 0x27] @ k @ [CHR 0x27]"
| "exc_str (IndexError m) = m"
| "exc_str (ZeroDivisionError m) = m"
| "exc_str (ValueError m) = m"
| "exc_str (ValidationError es) = ''validation error''"
| "exc_str (HTTPException c d) = str_nat c @ '': '' @ d"
| "exc_str (OtherException m) = m"

subsection \<open>Request and response schemas\<close>

record PredictRequest =
  bath :: int
  balcony :: int
  total_sqft_int :: real
  bhk :: int
  price_per_sqft :: real

record PredictResponse =
  predicted_price_lakhs :: real
  feature_order :: "string list"
  features_used :: "real list"

text \<open>The non-ASCII signs of the messages, as their UTF-8 bytes.\<close>

definition le_sign :: string where
  "le_sign = [CHR 0xE2, CHR 0x89, CHR 0xA4]"

definition ge_sign :: string where
  "ge_sign = [CHR 0xE2, CHR 0x89, CHR 0xA5]"

definition bath_rule_msg :: string where
  "bath_rule_msg = ''Invalid: bath should typically be '' @ le_sign @ '' (bhk + 2).''"

definition area_rule_msg :: string where
  "area_rule_msg = ''Invalid: sqft per BHK must be '' @ ge_sign @ '' 350 (data cleaning rule).''"

text \<open>True division of a float by an int: \<^verbatim>\<open>x / 0\<close> raises.\<close>

definition py_truediv :: "real \<Rightarrow> int \<Rightarrow> py_exception + real" where
  "py_truediv x n =
     (if n = 0 then Inl (ZeroDivisionError ''float division by zero'')
      else Inr (x / of_int n))"

text \<open>The bounds of the five \<^verbatim>\<open>Field\<close> declarations, in the order the class declares the
  fields. pydantic checks every field and reports each one that fails.\<close>

definition field_errors :: "PredictRequest \<Rightarrow> error_item list" where
  "field_errors r =
     (if bath r < 1 then [FieldConstraint ''bath'' (Ge 1)]
      else if bath r > 12 then [FieldConstraint ''bath'' (Le 12)] else []) @
     (if balcony r < 0 then [FieldConstraint ''balcony'' (Ge 0)]
      else if balcony r > 6 then [FieldConstraint ''balcony'' (Le 6)] else []) @
     (if total_sqft_int r > 200 then [] else [FieldConstraint ''total_sqft_int'' (Gt 200)]) @
     (if bhk r < 1 then [FieldConstraint ''bhk'' (Ge 1)]
      else if bhk r > 12 then [FieldConstraint ''bhk'' (Le 12)] else []) @
     (if price_per_sqft r > 0 then [] else [FieldConstraint ''price_per_sqft'' (Gt 0)])"

text \<open>\<^verbatim>\<open>PredictRequest.logical_rules\<close>: the first rule that fails raises.\<close>

definition logical_rules :: "PredictRequest \<Rightarrow> py_exception + PredictRequest" where
  "logical_rules self =
     (if bath self > bhk self + 2 then Inl (ValueError bath_rule_msg)
      else case py_truediv (total_sqft_int self) (bhk self) of
             Inl e \<Rightarrow> Inl e
           | Inr q \<Rightarrow> if q < 350 then Inl (ValueError area_rule_msg) else Inr self)"

text \<open>Constructing a \<^verbatim>\<open>PredictRequest\<close>: the field bounds first; the \<^verbatim>\<open>after\<close> validator
  runs only when no field failed. pydantic turns a \<^verbatim>\<open>ValueError\<close> of the validator into a
  \<^verbatim>\<open>ValidationError\<close>; any other exception of the validator leaves as it is.\<close>

definition PredictRequest_init :: "PredictRequest \<Rightarrow> py_exception + PredictRequest" where
  "PredictRequest_init raw =
     (case field_errors raw of
        [] \<Rightarrow> (case logical_rules raw of
                 Inl (ValueError m) \<Rightarrow> Inl (ValidationError [ValueErrorItem m])
               | Inl e \<Rightarrow> Inl e
               | Inr r \<Rightarrow> Inr r)
      | e # es \<Rightarrow> Inl (ValidationError (e # es)))"

subsection \<open>The model artifact\<close>

type_synonym predictor = "real list list \<Rightarrow> py_exception + real list"

record server_state =
  MODEL :: predictor
  FEATURE_ORDER :: "string list"


definition default_feature_order :: "string list" where
  "default_feature_order =
     [''bath'', ''balcony'', ''total_sqft_int'', ''bhk'', ''price_per_sqft'']"


subsection \<open>Vectorisation\<close>

datatype num = PyInt int | PyFloat real

fun py_float :: "num \<Rightarrow> real" where
  "py_float (PyInt i) = of_int i"
| "py_float (PyFloat x) = x"

definition feature_map :: "PredictRequest \<Rightarrow> (string \<rightharpoonup> num)" where
  "feature_map req =
     map_of [(''bath'', PyInt (bath req)),
             (''balcony'', PyInt (balcony req)),
             (''total_sqft_int'', PyFloat (total_sqft_int req)),
             (''bhk'', PyInt (bhk req)),
             (''price_per_sqft'', PyFloat (price_per_sqft req))]"

text \<open>The list comprehension of \<^verbatim>\<open>make_feature_vector\<close>: the first name that is not a key
  of the dict raises \<^verbatim>\<open>KeyError\<close>.\<close>

fun lookup_all :: "(string \<rightharpoonup> num) \<Rightarrow> string list \<Rightarrow> py_exception + real list" where
  "lookup_all fm [] = Inr []"
| "lookup_all fm (name # names) =
     (case fm name of
        None \<Rightarrow> Inl (KeyError name)
      | Some v \<Rightarrow>
          (case lookup_all fm names of
             Inl e \<Rightarrow> Inl e
           | Inr vs \<Rightarrow> Inr (py_float v # vs)))"

text \<open>The result is the two-dimensional array \<^verbatim>\<open>np.array([x])\<close>, a single row.\<close>

definition make_feature_vector ::
  "string list \<Rightarrow> PredictRequest \<Rightarrow> py_exception + real list list" where
  "make_feature_vector order req =
     (case lookup_all (feature_map req) order of
        Inl e \<Rightarrow> Inl e
      | Inr x \<Rightarrow> Inr [x])"

subsection \<open>Prediction\<close>

text \<open>\<^verbatim>\<open>round(y, 2)\<close> on the real line: to the nearest hundredth, a tie to the even one.\<close>

definition py_round2 :: "real \<Rightarrow> real" where
  "py_round2 y =
     (let s = y * 100; f = \<lfloor>s\<rfloor>; d = s - of_int f
      in (if d < 1 / 2 then of_int f
          else if 1 / 2 < d then of_int (f + 1)
          else if even f then of_int f else of_int (f + 1)) / 100)"

text \<open>Indexing with \<^verbatim>\<open>[0]\<close>; on an empty array it raises, with numpy's message.\<close>

definition first_item :: "'a list \<Rightarrow> py_exception + 'a" where
  "first_item xs =
     (case xs of
        [] \<Rightarrow> Inl (IndexError ''index 0 is out of bounds for axis 0 with size 0'')
      | x # _ \<Rightarrow> Inr x)"

text \<open>The body of the \<^verbatim>\<open>try\<close> of \<^verbatim>\<open>predict\<close>, with the arrays passed to the model.\<close>

definition predict_body ::
  "server_state \<Rightarrow> PredictRequest \<Rightarrow> (py_exception + PredictResponse) \<times> real list list list" where
  "predict_body st req =
     (case make_feature_vector (FEATURE_ORDER st) req of
        Inl e \<Rightarrow> (Inl e, [])
      | Inr x \<Rightarrow>
          (case MODEL st x of
             Inl e \<Rightarrow> (Inl e, [x])
           | Inr ys \<Rightarrow>
               (case first_item ys of
                  Inl e \<Rightarrow> (Inl e, [x])
                | Inr y_pred \<Rightarrow>
                    (case first_item x of
                       Inl e \<Rightarrow> (Inl e, [x])
                     | Inr row \<Rightarrow>
                         (Inr \<lparr>predicted_price_lakhs = py_round2 y_pred,
                               feature_order = FEATURE_ORDER st,
                               features_used = row\<rparr>, [x])))))"

text \<open>\<^verbatim>\<open>predict\<close>: every exception of the body becomes an \<^verbatim>\<open>HTTPException\<close> with status
  400.\<close>

definition predict ::
  "server_state \<Rightarrow> PredictRequest \<Rightarrow> (py_exception + PredictResponse) \<times> real list list list" where
  "predict st req =
     (case predict_body st req of
        (Inl e, calls) \<Rightarrow> (Inl (HTTPException 400 (''Prediction failed: '' @ exc_str e)), calls)
      | (Inr resp, calls) \<Rightarrow> (Inr resp, calls))"

text \<open>\<^verbatim>\<open>predict_via_query\<close>: the constructor call is outside any \<^verbatim>\<open>try\<close>.\<close>

definition predict_via_query ::
  "server_state \<Rightarrow> int \<Rightarrow> int \<Rightarrow> int \<Rightarrow> real \<Rightarrow> real \<Rightarrow>
     (py_exception + PredictResponse) \<times> real list list list" where
  "predict_via_query st bhk_p bath_q balcony_q total_sqft_int_q price_per_sqft_q =
     (case PredictRequest_init
             \<lparr>bath = bath_q, balcony = balcony_q, total_sqft_int = total_sqft_int_q,
              bhk = bhk_p, price_per_sqft = price_per_sqft_q\<rparr> of
        Inl e \<Rightarrow> (Inl e, [])
      | Inr req \<Rightarrow> predict st req)"

subsection \<open>The HTTP boundary\<close>

datatype http_response =
    OK PredictResponse
  | HttpError nat string
  | Unprocessable "error_item list"
  | InternalServerError

fun status_code :: "http_response \<Rightarrow> nat" where
  "status_code (OK _) = 200"
| "status_code (HttpError c _) = c"
| "status_code (Unprocessable _) = 422"
| "status_code InternalServerError = 500"

record outcome =
  response :: http_response
  predictor_calls :: "real list list list"

text \<open>What FastAPI answers when a handler returns or raises: the status of an
  \<^verbatim>\<open>HTTPException\<close>, and 500 for any other exception.\<close>

definition respond ::
  "(py_exception + PredictResponse) \<times> real list list list \<Rightarrow> outcome" where
  "respond r =
     (case r of
        (Inr resp, calls) \<Rightarrow> \<lparr>response = OK resp, predictor_calls = calls\<rparr>
      | (Inl (HTTPException c d), calls) \<Rightarrow> \<lparr>response = HttpError c d, predictor_calls = calls\<rparr>
      | (Inl e, calls) \<Rightarrow> \<lparr>response = InternalServerError, predictor_calls = calls\<rparr>)"

text \<open>\<^verbatim>\<open>POST /predict\<close>: FastAPI builds the \<^verbatim>\<open>PredictRequest\<close> from the body and answers
  422 with the entries of a validation error; the handler runs on the validated
  request.\<close>

definition route_post_predict :: "server_state \<Rightarrow> PredictRequest \<Rightarrow> outcome" where
  "route_post_predict st body =
     (case PredictRequest_init body of
        Inl (ValidationError es) \<Rightarrow> \<lparr>response = Unprocessable es, predictor_calls = []\<rparr>
      | Inl e \<Rightarrow> \<lparr>response = InternalServerError, predictor_calls = []\<rparr>
      | Inr req \<Rightarrow> respond (predict st req))"

text \<open>The bounds of the \<^verbatim>\<open>Path\<close> and \<^verbatim>\<open>Query\<close> declarations of \<^verbatim>\<open>predict_via_query\<close>, the
  path parameter first.\<close>

definition param_errors :: "int \<Rightarrow> int \<Rightarrow> int \<Rightarrow> real \<Rightarrow> real \<Rightarrow> error_item list" where
  "param_errors bhk_p bath_q balcony_q total_sqft_int_q price_per_sqft_q =
     (if bhk_p < 1 then [FieldConstraint ''bhk'' (Ge 1)]
      else if bhk_p > 12 then [FieldConstraint ''bhk'' (Le 12)] else []) @
     (if bath_q < 1 then [FieldConstraint ''bath'' (Ge 1)]
      else if bath_q > 12 then [FieldConstraint ''bath'' (Le 12)] else []) @
     (if balcony_q < 0 then [FieldConstraint ''balcony'' (Ge 0)]
      else if balcony_q > 6 then [FieldConstraint ''balcony'' (Le 6)] else []) @
     (if total_sqft_int_q > 200 then [] else [FieldConstraint ''total_sqft_int'' (Gt 200)]) @
     (if price_per_sqft_q > 0 then [] else [FieldConstraint ''price_per_sqft'' (Gt 0)])"

definition with_default :: "'a \<Rightarrow> 'a option \<Rightarrow> 'a" where
  "with_default d v = (case v of None \<Rightarrow> d | Some x \<Rightarrow> x)"

text \<open>\<^verbatim>\<open>GET /predict/{bhk}\<close>: an absent query parameter takes its default; FastAPI answers
  422 when a parameter breaks its bound, and calls the handler otherwise.\<close>

definition route_get_predict ::
  "server_state \<Rightarrow> int \<Rightarrow> int option \<Rightarrow> int option \<Rightarrow> real option \<Rightarrow> real option \<Rightarrow> outcome" where
  "route_get_predict st bhk_p bath_o balcony_o total_sqft_int_o price_per_sqft_o =
     (let bath_q = with_default 2 bath_o;
          balcony_q = with_default 1 balcony_o;
          total_sqft_int_q = with_default 1000 total_sqft_int_o;
          price_per_sqft_q = with_default 6000 price_per_sqft_o
      in case param_errors bhk_p bath_q balcony_q total_sqft_int_q price_per_sqft_q of
           [] \<Rightarrow> respond (predict_via_query st bhk_p bath_q balcony_q
                           total_sqft_int_q price_per_sqft_q)
         | e # es \<Rightarrow> \<lparr>response = Unprocessable (e # es), predictor_calls = []\<rparr>)"

subsection \<open>The client form\<close>










subsection \<open>Sample data\<close>

text \<open>Two stand-ins for the opaque model, and the request of the spec's first scenario.\<close>

definition constant_model :: "real \<Rightarrow> predictor" where
  "constant_model y x = Inr [y]"

definition failing_model :: "py_exception \<Rightarrow> predictor" where
  "failing_model e x = Inl e"

definition sample_request :: PredictRequest where
  "sample_request =
     \<lparr>bath = 2, balcony = 1, total_sqft_int = 1000, bhk = 2, price_per_sqft = 6000\<rparr>"

definition sample_state :: server_state where
  "sample_state = \<lparr>MODEL = constant_model 61.755, FEATURE_ORDER = default_feature_order\<rparr>"

text \<open>A request on both cross-field boundaries at once: 700 / 2 = 350 and 4 = 2 + 2.\<close>

definition boundary_request :: PredictRequest where
  "boundary_request =
     \<lparr>bath = 4, balcony = 1, total_sqft_int = 700, bhk = 2, price_per_sqft = 6000\<rparr>"

section \<open>Validation: when a request is accepted\<close>

lemma field_errors_Nil_iff:
  "field_errors r = [] \<longleftrightarrow>
     1 \<le> bath r \<and> bath r \<le> 12 \<and> 0 \<le> balcony r \<and> balcony r \<le> 6 \<and> 200 < total_sqft_int r
     \<and> 1 \<le> bhk r \<and> bhk r \<le> 12 \<and> 0 < price_per_sqft r"
  by (auto simp: field_errors_def)

lemma param_errors_field_errors:
  "param_errors b ba bl s p = [] \<longleftrightarrow>
     field_errors \<lparr>bath = ba, balcony = bl, total_sqft_int = s, bhk = b, price_per_sqft = p\<rparr> = []"
  by (auto simp: field_errors_def param_errors_def)

text \<open>With every field in range the divisor is not zero, and the constructor's result is
  decided by the two rules, the bathroom rule first.\<close>

lemma init_cases:
  assumes "field_errors r = []"
  shows "PredictRequest_init r =
           (if bath r > bhk r + 2 then Inl (ValidationError [ValueErrorItem bath_rule_msg])
            else if total_sqft_int r / of_int (bhk r) < 350
                 then Inl (ValidationError [ValueErrorItem area_rule_msg])
                 else Inr r)"
proof -
  from assms have "bhk r \<noteq> 0" by (simp add: field_errors_Nil_iff)
  with assms show ?thesis
    by (simp add: PredictRequest_init_def logical_rules_def py_truediv_def)
qed

lemma init_Inr_iff:
  "PredictRequest_init raw = Inr r \<longleftrightarrow>
     r = raw \<and> field_errors raw = [] \<and> bath raw \<le> bhk raw + 2 \<and>
     \<not> total_sqft_int raw / of_int (bhk raw) < 350"
proof (cases "field_errors raw")
  case Nil
  then show ?thesis by (auto simp: init_cases)
next
  case (Cons e es)
  then show ?thesis by (simp add: PredictRequest_init_def)
qed

lemma init_Inr_fields: "PredictRequest_init raw = Inr r \<Longrightarrow> field_errors raw = []"
  by (simp add: init_Inr_iff)

lemma init_error_is_validation:
  assumes "PredictRequest_init raw = Inl e"
  shows "\<exists>es. e = ValidationError es \<and> es \<noteq> []"
proof (cases "field_errors raw")
  case Nil
  with assms show ?thesis by (auto simp: init_cases split: if_splits)
next
  case (Cons x xs)
  with assms show ?thesis by (auto simp: PredictRequest_init_def)
qed


text \<open>The validator on its own would divide by zero: the field bounds are what prevents
  it.\<close>

lemma logical_rules_unguarded:
  "logical_rules \<lparr>bath = 1, balcony = 0, total_sqft_int = 1000, bhk = 0, price_per_sqft = 1\<rparr> =
     Inl (ZeroDivisionError ''float division by zero'')"
  by (simp add: logical_rules_def py_truediv_def)

lemma rule_msgs_differ: "bath_rule_msg \<noteq> area_rule_msg"
  by (simp add: bath_rule_msg_def area_rule_msg_def)

lemma sample_init: "PredictRequest_init sample_request = Inr sample_request"
  by (simp add: init_Inr_iff field_errors_Nil_iff sample_request_def)

section \<open>Vectorisation\<close>


lemma lookup_all_length: "lookup_all fm order = Inr x \<Longrightarrow> length x = length order"
  by (induction order arbitrary: x) (auto split: option.splits sum.splits)

lemma lookup_all_unknown:
  "n \<in> set order \<Longrightarrow> fm n = None \<Longrightarrow> \<exists>k. lookup_all fm order = Inl (KeyError k)"
  by (induction order) (auto split: option.splits sum.splits)




lemma make_feature_vector_row:
  "make_feature_vector order r = Inr x \<Longrightarrow> \<exists>row. x = [row] \<and> length row = length order"
  by (auto simp: make_feature_vector_def lookup_all_length split: sum.splits)

lemma sample_vector:
  "make_feature_vector default_feature_order sample_request = Inr [[2, 1, 1000, 2, 6000]]"
  by (simp add: make_feature_vector_def feature_map_def default_feature_order_def
      sample_request_def)

section \<open>The handler and the routes\<close>

lemma predict_body_success:
  assumes "predict_body st req = (Inr resp, calls)"
  shows "make_feature_vector (FEATURE_ORDER st) req = Inr [features_used resp] \<and>
         calls = [[features_used resp]] \<and> feature_order resp = FEATURE_ORDER st"
proof (cases "make_feature_vector (FEATURE_ORDER st) req")
  case (Inl e)
  with assms show ?thesis by (simp add: predict_body_def)
next
  case (Inr x)
  from make_feature_vector_row [OF Inr] obtain row where x: "x = [row]" by blast
  with Inr assms show ?thesis
    by (auto simp: predict_body_def first_item_def split: sum.splits list.splits)
qed

lemma predict_success:
  assumes "predict st req = (Inr resp, calls)"
  shows "make_feature_vector (FEATURE_ORDER st) req = Inr [features_used resp] \<and>
         calls = [[features_used resp]] \<and> feature_order resp = FEATURE_ORDER st"
proof -
  from assms have "predict_body st req = (Inr resp, calls)"
    by (auto simp: predict_def split: prod.splits sum.splits)
  then show ?thesis by (rule predict_body_success)
qed


lemma predict_model_raises:
  assumes "make_feature_vector (FEATURE_ORDER st) req = Inr x" and "MODEL st x = Inl e"
  shows "predict st req = (Inl (HTTPException 400 (''Prediction failed: '' @ exc_str e)), [x])"
  using assms by (simp add: predict_def predict_body_def)

lemma sample_predict:
  "predict sample_state sample_request =
     (Inr \<lparr>predicted_price_lakhs = 61.76, feature_order = default_feature_order,
           features_used = [2, 1, 1000, 2, 6000]\<rparr>, [[[2, 1, 1000, 2, 6000]]])"
proof -
  have "FEATURE_ORDER sample_state = default_feature_order"
    and "MODEL sample_state [[2, 1, 1000, 2, 6000]] = Inr [61.755]"
    by (simp_all add: sample_state_def constant_model_def)
  then show ?thesis
    by (simp add: predict_def predict_body_def sample_vector first_item_def py_round2_def)
qed

lemma respond_OK:
  assumes "response (respond r) = OK resp"
  shows "r = (Inr resp, predictor_calls (respond r))"
  using assms by (auto simp: respond_def split: prod.splits sum.splits py_exception.splits)

lemma route_post_accepted:
  "PredictRequest_init body = Inr req \<Longrightarrow> route_post_predict st body = respond (predict st req)"
  by (simp add: route_post_predict_def)

lemma route_get_accepted:
  assumes "PredictRequest_init
             \<lparr>bath = with_default 2 bath_o, balcony = with_default 1 balcony_o,
              total_sqft_int = with_default 1000 sqft_o, bhk = b,
              price_per_sqft = with_default 6000 pps_o\<rparr> = Inr req"
  shows "route_get_predict st b bath_o balcony_o sqft_o pps_o = respond (predict st req)"
proof -
  from assms have "param_errors b (with_default 2 bath_o) (with_default 1 balcony_o)
                     (with_default 1000 sqft_o) (with_default 6000 pps_o) = []"
    by (simp only: param_errors_field_errors init_Inr_fields)
  with assms show ?thesis
    by (simp add: route_get_predict_def predict_via_query_def Let_def)
qed

text \<open>A request the constructor rejects never reaches the model. \<^verbatim>\<open>POST /predict\<close> answers
  422. \<^verbatim>\<open>GET /predict/{bhk}\<close> answers 422 when a parameter is out of range, and 500 when
  only a cross-field rule fails: the handler's constructor call raises past FastAPI.\<close>

lemma post_rejected:
  assumes "PredictRequest_init body = Inl e"
  shows "\<exists>es. route_post_predict st body = \<lparr>response = Unprocessable es, predictor_calls = []\<rparr>"
proof -
  from init_error_is_validation [OF assms] obtain es where "e = ValidationError es" by blast
  with assms show ?thesis by (simp add: route_post_predict_def)
qed

lemma get_rejected:
  assumes "PredictRequest_init
             \<lparr>bath = with_default 2 bath_o, balcony = with_default 1 balcony_o,
              total_sqft_int = with_default 1000 sqft_o, bhk = b,
              price_per_sqft = with_default 6000 pps_o\<rparr> = Inl e"
  shows "predictor_calls (route_get_predict st b bath_o balcony_o sqft_o pps_o) = [] \<and>
         (status_code (response (route_get_predict st b bath_o balcony_o sqft_o pps_o)) = 422 \<or>
          status_code (response (route_get_predict st b bath_o balcony_o sqft_o pps_o)) = 500)"
proof -
  from init_error_is_validation [OF assms] obtain es where e: "e = ValidationError es" by blast
  show ?thesis
  proof (cases "param_errors b (with_default 2 bath_o) (with_default 1 balcony_o)
                   (with_default 1000 sqft_o) (with_default 6000 pps_o)")
    case Nil
    with assms e show ?thesis
      by (simp add: route_get_predict_def predict_via_query_def respond_def Let_def)
  next
    case (Cons x xs)
    then show ?thesis by (simp add: route_get_predict_def Let_def)
  qed
qed

lemma get_rejected_by_rule_only:
  assumes "param_errors b ba bl s p = []"
    and "PredictRequest_init
           \<lparr>bath = ba, balcony = bl, total_sqft_int = s, bhk = b, price_per_sqft = p\<rparr> = Inl e"
  shows "route_get_predict st b (Some ba) (Some bl) (Some s) (Some p) =
           \<lparr>response = InternalServerError, predictor_calls = []\<rparr>"
proof -
  from init_error_is_validation [OF assms(2)] obtain es where "e = ValidationError es" by blast
  with assms show ?thesis
    by (simp add: route_get_predict_def predict_via_query_def respond_def with_default_def)
qed

section \<open>The client's checks\<close>










section \<open>The documented defaults\<close>

lemma default_area_small:
  assumes "3 \<le> b"
  shows "1000 / real_of_int b < 350"
proof -
  from assms have "(3::real) \<le> of_int b" by linarith
  then have "1000 < 350 * real_of_int b" and "0 < real_of_int b" by linarith+
  then show ?thesis by (simp add: divide_less_eq)
qed

lemma default_init_iff:
  "(\<exists>r. PredictRequest_init
           \<lparr>bath = 2, balcony = 1, total_sqft_int = 1000, bhk = b, price_per_sqft = 6000\<rparr> = Inr r)
     \<longleftrightarrow> b = 1 \<or> b = 2"
proof (cases "3 \<le> b")
  case True
  from default_area_small [OF True] True show ?thesis by (simp add: init_Inr_iff)
next
  case False
  then consider "b \<le> 0" | "b = 1" | "b = 2" by linarith
  then show ?thesis
    by cases (simp_all add: init_Inr_iff field_errors_Nil_iff)
qed

section \<open>The two entry points\<close>

text \<open>
  C1. Whenever the five field values pass validation, \<^verbatim>\<open>GET /predict/{bhk}\<close> and
  \<^verbatim>\<open>POST /predict\<close> give the same outcome: the same response (so the same
  \<^verbatim>\<open>predicted_price_lakhs\<close>, \<^verbatim>\<open>feature_order\<close> and \<^verbatim>\<open>features_used\<close>) and the same calls of the
  model, because both are what \<^verbatim>\<open>predict\<close> returns on the validated request. A query
  parameter that is absent stands for its default.
\<close>

theorem entry_points_agree:
  assumes "PredictRequest_init
             \<lparr>bath = with_default 2 bath_o, balcony = with_default 1 balcony_o,
              total_sqft_int = with_default 1000 sqft_o, bhk = b,
              price_per_sqft = with_default 6000 pps_o\<rparr> = Inr req"
  shows "route_get_predict st b bath_o balcony_o sqft_o pps_o =
           route_post_predict st
             \<lparr>bath = with_default 2 bath_o, balcony = with_default 1 balcony_o,
              total_sqft_int = with_default 1000 sqft_o, bhk = b,
              price_per_sqft = with_default 6000 pps_o\<rparr>
         \<and> route_get_predict st b bath_o balcony_o sqft_o pps_o = respond (predict st req)"
  by (simp add: route_get_accepted [OF assms] route_post_accepted [OF assms])

theorem entry_points_agree_witness:
  "PredictRequest_init sample_request = Inr sample_request \<and>
   route_get_predict sample_state 2 None None None None =
     route_post_predict sample_state sample_request \<and>
   response (route_post_predict sample_state sample_request) =
     OK \<lparr>predicted_price_lakhs = 61.76, feature_order = default_feature_order,
         features_used = [2, 1, 1000, 2, 6000]\<rparr>"
proof -
  have h: "PredictRequest_init
             \<lparr>bath = with_default 2 None, balcony = with_default 1 None,
              total_sqft_int = with_default 1000 None, bhk = 2,
              price_per_sqft = with_default 6000 None\<rparr> = Inr sample_request"
    using sample_init by (simp add: with_default_def sample_request_def)
  have v: "response (route_post_predict sample_state sample_request) =
     OK \<lparr>predicted_price_lakhs = 61.76, feature_order = default_feature_order,
         features_used = [2, 1, 1000, 2, 6000]\<rparr>"
    by (simp add: route_post_accepted [OF sample_init] sample_predict respond_def)
  from entry_points_agree [OF h, of sample_state] sample_init v show ?thesis
    by (simp add: with_default_def sample_request_def)
qed

section \<open>Rejected requests\<close>

text \<open>
  C2. The claim asks for a client error (400 or 422) from every entry point whenever a
  single constraint is violated. \<^verbatim>\<open>GET /predict/2?bath=5\<close> (the other parameters at their
  defaults) violates only the bathroom rule: every parameter is inside its bound, so the
  handler runs, its \<^verbatim>\<open>PredictRequest(...)\<close> call raises a pydantic validation error outside
  any \<^verbatim>\<open>try\<close>, and the answer is 500. The same five values sent to \<^verbatim>\<open>POST /predict\<close> are
  answered 422. Neither call reaches the model.
\<close>

theorem get_cross_field_violation_is_500:
  "route_get_predict st 2 (Some 5) None None None =
     \<lparr>response = InternalServerError, predictor_calls = []\<rparr> \<and>
   status_code (response (route_get_predict st 2 (Some 5) None None None)) = 500 \<and>
   route_post_predict st
       \<lparr>bath = 5, balcony = 1, total_sqft_int = 1000, bhk = 2, price_per_sqft = 6000\<rparr> =
     \<lparr>response = Unprocessable [ValueErrorItem bath_rule_msg], predictor_calls = []\<rparr>"
  by (simp add: route_get_predict_def route_post_predict_def predict_via_query_def
      param_errors_def with_default_def PredictRequest_init_def field_errors_def
      logical_rules_def respond_def)

section \<open>The feature order\<close>




section \<open>Accepted requests are vectorised by name\<close>




section \<open>The response reports the vector that was sent\<close>

text \<open>
  C5. In every successful prediction, \<^verbatim>\<open>features_used\<close> is the row that
  \<^verbatim>\<open>make_feature_vector\<close> builds from the same request and the loaded feature order, and
  that one-row array is the only argument the model was called with. This holds of
  \<^verbatim>\<open>predict\<close> itself and of a 200 answer of either route.
\<close>

theorem features_used_roundtrip:
  "(predict st req = (Inr resp, calls) \<longrightarrow>
      make_feature_vector (FEATURE_ORDER st) req = Inr [features_used resp] \<and>
      calls = [[features_used resp]]) \<and>
   (response (route_post_predict st body) = OK resp \<longrightarrow>
      PredictRequest_init body = Inr body \<and>
      make_feature_vector (FEATURE_ORDER st) body = Inr [features_used resp] \<and>
      predictor_calls (route_post_predict st body) = [[features_used resp]]) \<and>
   (response (route_get_predict st b (Some ba) (Some bl) (Some s) (Some p)) = OK resp \<longrightarrow>
      make_feature_vector (FEATURE_ORDER st)
        \<lparr>bath = ba, balcony = bl, total_sqft_int = s, bhk = b, price_per_sqft = p\<rparr> =
        Inr [features_used resp] \<and>
      predictor_calls (route_get_predict st b (Some ba) (Some bl) (Some s) (Some p)) =
        [[features_used resp]])"
proof (intro conjI impI)
  assume "predict st req = (Inr resp, calls)"
  from predict_success [OF this]
  show "make_feature_vector (FEATURE_ORDER st) req = Inr [features_used resp]"
    and "calls = [[features_used resp]]" by simp_all
next
  assume ok: "response (route_post_predict st body) = OK resp"
  show i: "PredictRequest_init body = Inr body"
  proof (cases "PredictRequest_init body")
    case (Inl e)
    from post_rejected [OF Inl, of st] ok show ?thesis by auto
  next
    case (Inr r)
    then show ?thesis by (simp add: init_Inr_iff)
  qed
  from ok have "response (respond (predict st body)) = OK resp"
    by (simp add: route_post_accepted [OF i])
  from respond_OK [OF this]
  have "predict st body = (Inr resp, predictor_calls (route_post_predict st body))"
    by (simp add: route_post_accepted [OF i])
  from predict_success [OF this]
  show "make_feature_vector (FEATURE_ORDER st) body = Inr [features_used resp]"
    and "predictor_calls (route_post_predict st body) = [[features_used resp]]" by simp_all
next
  let ?raw = "\<lparr>bath = ba, balcony = bl, total_sqft_int = s, bhk = b, price_per_sqft = p\<rparr>"
  let ?out = "route_get_predict st b (Some ba) (Some bl) (Some s) (Some p)"
  have w: "\<lparr>bath = with_default 2 (Some ba), balcony = with_default 1 (Some bl),
            total_sqft_int = with_default 1000 (Some s), bhk = b,
            price_per_sqft = with_default 6000 (Some p)\<rparr> = ?raw"
    by (simp add: with_default_def)
  assume ok: "response ?out = OK resp"
  have i: "PredictRequest_init ?raw = Inr ?raw"
  proof (cases "PredictRequest_init ?raw")
    case (Inl e)
    with w have "PredictRequest_init
             \<lparr>bath = with_default 2 (Some ba), balcony = with_default 1 (Some bl),
              total_sqft_int = with_default 1000 (Some s), bhk = b,
              price_per_sqft = with_default 6000 (Some p)\<rparr> = Inl e"
      by simp
    from get_rejected [OF this, of st] ok show ?thesis by auto
  next
    case (Inr r)
    then show ?thesis by (simp add: init_Inr_iff)
  qed
  from i w have out: "?out = respond (predict st ?raw)"
    by (simp add: route_get_accepted)
  with ok have "response (respond (predict st ?raw)) = OK resp" by simp
  from respond_OK [OF this] out
  have "predict st ?raw = (Inr resp, predictor_calls ?out)" by simp
  from predict_success [OF this]
  show "make_feature_vector (FEATURE_ORDER st) ?raw = Inr [features_used resp]"
    and "predictor_calls ?out = [[features_used resp]]" by simp_all
qed

theorem features_used_roundtrip_witness:
  "predict sample_state sample_request =
     (Inr \<lparr>predicted_price_lakhs = 61.76, feature_order = default_feature_order,
           features_used = [2, 1, 1000, 2, 6000]\<rparr>, [[[2, 1, 1000, 2, 6000]]]) \<and>
   response (route_post_predict sample_state sample_request) =
     OK \<lparr>predicted_price_lakhs = 61.76, feature_order = default_feature_order,
         features_used = [2, 1, 1000, 2, 6000]\<rparr> \<and>
   response (route_get_predict sample_state 2 (Some 2) (Some 1) (Some 1000) (Some 6000)) =
     OK \<lparr>predicted_price_lakhs = 61.76, feature_order = default_feature_order,
         features_used = [2, 1, 1000, 2, 6000]\<rparr> \<and>
   make_feature_vector (FEATURE_ORDER sample_state) sample_request =
     Inr [[2, 1, 1000, 2, 6000]] \<and>
   predictor_calls (route_post_predict sample_state sample_request) =
     [[[2, 1, 1000, 2, 6000]]] \<and>
   predictor_calls (route_get_predict sample_state 2 (Some 2) (Some 1) (Some 1000) (Some 6000)) =
     [[[2, 1, 1000, 2, 6000]]]"
proof -
  let ?resp = "\<lparr>predicted_price_lakhs = 61.76, feature_order = default_feature_order,
                 features_used = [2, 1, 1000, 2, 6000]\<rparr>"
  have i: "PredictRequest_init
             \<lparr>bath = with_default 2 (Some 2), balcony = with_default 1 (Some 1),
              total_sqft_int = with_default 1000 (Some 1000), bhk = 2,
              price_per_sqft = with_default 6000 (Some 6000)\<rparr> = Inr sample_request"
    using sample_init by (simp add: with_default_def sample_request_def)
  have post: "response (route_post_predict sample_state sample_request) = OK ?resp"
    by (simp add: route_post_accepted [OF sample_init] sample_predict respond_def)
  have get: "response (route_get_predict sample_state 2 (Some 2) (Some 1) (Some 1000)
               (Some 6000)) = OK ?resp"
    by (simp add: route_get_accepted [OF i] sample_predict respond_def)
  from features_used_roundtrip
         [of sample_state sample_request ?resp "[[[2, 1, 1000, 2, 6000]]]" sample_request
             2 2 1 1000 6000]
       sample_predict post get
  show ?thesis by (simp add: sample_request_def)
qed

section \<open>The boundaries of the cross-field rules\<close>

text \<open>
  C6. For a request whose five fields are in range: with area per bedroom exactly 350 the
  area rule does not reject, and the request is accepted when the bathroom rule holds
  too; with area per bedroom below 350 the request is rejected; with bathrooms exactly
  bedrooms + 2 the bathroom rule does not reject, and the request is accepted when the
  area rule holds too; with bathrooms equal to bedrooms + 3 the request is rejected by the
  bathroom rule.
\<close>

theorem boundary_rules:
  assumes "field_errors r = []"
  shows "(total_sqft_int r / of_int (bhk r) = 350 \<and> bath r \<le> bhk r + 2 \<longrightarrow>
            PredictRequest_init r = Inr r) \<and>
         (total_sqft_int r / of_int (bhk r) = 350 \<longrightarrow>
            PredictRequest_init r \<noteq> Inl (ValidationError [ValueErrorItem area_rule_msg])) \<and>
         (total_sqft_int r / of_int (bhk r) < 350 \<longrightarrow>
            PredictRequest_init r = Inl (ValidationError [ValueErrorItem bath_rule_msg]) \<or>
            PredictRequest_init r = Inl (ValidationError [ValueErrorItem area_rule_msg])) \<and>
         (bath r = bhk r + 2 \<and> 350 \<le> total_sqft_int r / of_int (bhk r) \<longrightarrow>
            PredictRequest_init r = Inr r) \<and>
         (bath r = bhk r + 2 \<longrightarrow>
            PredictRequest_init r \<noteq> Inl (ValidationError [ValueErrorItem bath_rule_msg])) \<and>
         (bath r = bhk r + 3 \<longrightarrow>
            PredictRequest_init r = Inl (ValidationError [ValueErrorItem bath_rule_msg]))"
  using rule_msgs_differ by (simp add: init_cases [OF assms])

theorem boundary_rules_witness:
  "field_errors boundary_request = [] \<and>
   total_sqft_int boundary_request / of_int (bhk boundary_request) = 350 \<and>
   bath boundary_request = bhk boundary_request + 2 \<and>
   PredictRequest_init boundary_request = Inr boundary_request \<and>
   PredictRequest_init (boundary_request\<lparr>total_sqft_int := 699.99\<rparr>) =
     Inl (ValidationError [ValueErrorItem area_rule_msg]) \<and>
   PredictRequest_init (boundary_request\<lparr>bath := 5\<rparr>) =
     Inl (ValidationError [ValueErrorItem bath_rule_msg])"
proof -
  have f1: "field_errors boundary_request = []"
    and f2: "field_errors (boundary_request\<lparr>total_sqft_int := 699.99\<rparr>) = []"
    and f3: "field_errors (boundary_request\<lparr>bath := 5\<rparr>) = []"
    by (simp_all add: field_errors_Nil_iff boundary_request_def)
  have e: "total_sqft_int boundary_request / of_int (bhk boundary_request) = 350"
    "bath boundary_request = bhk boundary_request + 2"
    by (simp_all add: boundary_request_def)
  from boundary_rules [OF f1] e
  have "PredictRequest_init boundary_request = Inr boundary_request"
    by simp
  moreover from boundary_rules [OF f2]
  have "PredictRequest_init (boundary_request\<lparr>total_sqft_int := 699.99\<rparr>) =
     Inl (ValidationError [ValueErrorItem area_rule_msg])"
    by (auto simp: boundary_request_def)
  moreover from boundary_rules [OF f3]
  have "PredictRequest_init (boundary_request\<lparr>bath := 5\<rparr>) =
     Inl (ValidationError [ValueErrorItem bath_rule_msg])"
    by (simp add: boundary_request_def)
  ultimately show ?thesis using f1 e by simp
qed

section \<open>Exceptions of the model\<close>

text \<open>
  C7. When the model raises on the vector of a validated request, both routes answer 400
  with the detail \<^verbatim>\<open>Prediction failed:\<close> followed by the text of the exception; the model
  was called once, and the answer is not a 200.
\<close>

theorem predictor_exception_is_400:
  assumes "PredictRequest_init
             \<lparr>bath = ba, balcony = bl, total_sqft_int = s, bhk = b, price_per_sqft = p\<rparr> = Inr req"
    and "make_feature_vector (FEATURE_ORDER st) req = Inr x"
    and "MODEL st x = Inl e"
  shows "route_post_predict st
           \<lparr>bath = ba, balcony = bl, total_sqft_int = s, bhk = b, price_per_sqft = p\<rparr> =
           \<lparr>response = HttpError 400 (''Prediction failed: '' @ exc_str e),
            predictor_calls = [x]\<rparr> \<and>
         route_get_predict st b (Some ba) (Some bl) (Some s) (Some p) =
           \<lparr>response = HttpError 400 (''Prediction failed: '' @ exc_str e),
            predictor_calls = [x]\<rparr> \<and>
         status_code (response (route_post_predict st
           \<lparr>bath = ba, balcony = bl, total_sqft_int = s, bhk = b, price_per_sqft = p\<rparr>)) = 400 \<and>
         status_code (response (route_get_predict st b (Some ba) (Some bl) (Some s) (Some p))) =
           400"
proof -
  from assms(1) have g: "PredictRequest_init
             \<lparr>bath = with_default 2 (Some ba), balcony = with_default 1 (Some bl),
              total_sqft_int = with_default 1000 (Some s), bhk = b,
              price_per_sqft = with_default 6000 (Some p)\<rparr> = Inr req"
    by (simp add: with_default_def)
  show ?thesis
    by (simp add: route_post_accepted [OF assms(1)] route_get_accepted [OF g]
        predict_model_raises [OF assms(2,3)] respond_def)
qed

theorem predictor_exception_is_400_witness:
  "PredictRequest_init
     \<lparr>bath = 2, balcony = 1, total_sqft_int = 1000, bhk = 2, price_per_sqft = 6000\<rparr> =
     Inr sample_request \<and>
   make_feature_vector default_feature_order sample_request = Inr [[2, 1, 1000, 2, 6000]] \<and>
   failing_model (ValueError ''shape mismatch'') [[2, 1, 1000, 2, 6000]] =
     Inl (ValueError ''shape mismatch'') \<and>
   route_get_predict
       \<lparr>MODEL = failing_model (ValueError ''shape mismatch''),
        FEATURE_ORDER = default_feature_order\<rparr> 2 (Some 2) (Some 1) (Some 1000) (Some 6000) =
     \<lparr>response = HttpError 400 ''Prediction failed: shape mismatch'',
      predictor_calls = [[[2, 1, 1000, 2, 6000]]]\<rparr>"
proof -
  let ?st = "\<lparr>MODEL = failing_model (ValueError ''shape mismatch''),
              FEATURE_ORDER = default_feature_order\<rparr>"
  have i: "PredictRequest_init
     \<lparr>bath = 2, balcony = 1, total_sqft_int = 1000, bhk = 2, price_per_sqft = 6000\<rparr> =
     Inr sample_request"
    using sample_init by (simp add: sample_request_def)
  have v: "make_feature_vector (FEATURE_ORDER ?st) sample_request = Inr [[2, 1, 1000, 2, 6000]]"
    by (simp add: sample_vector)
  have m: "MODEL ?st [[2, 1, 1000, 2, 6000]] = Inl (ValueError ''shape mismatch'')"
    by (simp add: failing_model_def)
  from predictor_exception_is_400 [OF i v m] i v m show ?thesis by simp
qed

section \<open>Every violated range is reported\<close>



section \<open>The path parameter alone\<close>

text \<open>
  C9. With the four query parameters at their defaults (2 bathrooms, 1 balcony, 1000 sqft,
  6000 per sqft), the request is accepted exactly when \<^verbatim>\<open>bhk\<close> is 1 or 2. For every
  \<^verbatim>\<open>bhk\<close> of 3 or more, 1000 / bhk is below 350, the model is not called and the answer is
  not a 200; for \<^verbatim>\<open>bhk\<close> from 3 to 12 the rejection is the area rule's. So a 200 answer to
  \<^verbatim>\<open>GET /predict/{bhk}\<close> without query parameters means \<^verbatim>\<open>bhk\<close> is 1 or 2.
\<close>

theorem defaults_accept_only_bhk_1_2:
  "((\<exists>r. PredictRequest_init
           \<lparr>bath = 2, balcony = 1, total_sqft_int = 1000, bhk = b, price_per_sqft = 6000\<rparr> = Inr r)
      \<longleftrightarrow> b = 1 \<or> b = 2) \<and>
   (3 \<le> b \<longrightarrow> 1000 / real_of_int b < 350 \<and>
      predictor_calls (route_get_predict st b None None None None) = [] \<and>
      status_code (response (route_get_predict st b None None None None)) \<noteq> 200) \<and>
   (3 \<le> b \<and> b \<le> 12 \<longrightarrow>
      PredictRequest_init
        \<lparr>bath = 2, balcony = 1, total_sqft_int = 1000, bhk = b, price_per_sqft = 6000\<rparr> =
        Inl (ValidationError [ValueErrorItem area_rule_msg])) \<and>
   ((\<exists>resp. response (route_get_predict st b None None None None) = OK resp) \<longrightarrow>
      b = 1 \<or> b = 2)"
proof (intro conjI impI)
  show "(\<exists>r. PredictRequest_init
           \<lparr>bath = 2, balcony = 1, total_sqft_int = 1000, bhk = b, price_per_sqft = 6000\<rparr> = Inr r)
      \<longleftrightarrow> b = 1 \<or> b = 2" by (rule default_init_iff)
next
  assume "3 \<le> b" then show "1000 / real_of_int b < 350" by (rule default_area_small)
next
  assume b: "3 \<le> b"
  with default_init_iff [of b] obtain e where
    "PredictRequest_init
       \<lparr>bath = 2, balcony = 1, total_sqft_int = 1000, bhk = b, price_per_sqft = 6000\<rparr> = Inl e"
    by (cases "PredictRequest_init
       \<lparr>bath = 2, balcony = 1, total_sqft_int = 1000, bhk = b, price_per_sqft = 6000\<rparr>") auto
  then have "PredictRequest_init
             \<lparr>bath = with_default 2 None, balcony = with_default 1 None,
              total_sqft_int = with_default 1000 None, bhk = b,
              price_per_sqft = with_default 6000 None\<rparr> = Inl e"
    by (simp add: with_default_def)
  from get_rejected [OF this, of st]
  show "predictor_calls (route_get_predict st b None None None None) = []"
    and "status_code (response (route_get_predict st b None None None None)) \<noteq> 200"
    by auto
next
  assume b: "3 \<le> b \<and> b \<le> 12"
  then have f: "field_errors
        \<lparr>bath = 2, balcony = 1, total_sqft_int = 1000, bhk = b, price_per_sqft = 6000\<rparr> = []"
    by (simp add: field_errors_Nil_iff)
  from b default_area_small [of b] show "PredictRequest_init
        \<lparr>bath = 2, balcony = 1, total_sqft_int = 1000, bhk = b, price_per_sqft = 6000\<rparr> =
        Inl (ValidationError [ValueErrorItem area_rule_msg])"
    by (simp add: init_cases [OF f])
next
  assume "\<exists>resp. response (route_get_predict st b None None None None) = OK resp"
  then obtain resp where ok: "response (route_get_predict st b None None None None) = OK resp" ..
  show "b = 1 \<or> b = 2"
  proof (cases "PredictRequest_init
       \<lparr>bath = 2, balcony = 1, total_sqft_int = 1000, bhk = b, price_per_sqft = 6000\<rparr>")
    case (Inl e)
    then have "PredictRequest_init
             \<lparr>bath = with_default 2 None, balcony = with_default 1 None,
              total_sqft_int = with_default 1000 None, bhk = b,
              price_per_sqft = with_default 6000 None\<rparr> = Inl e"
      by (simp add: with_default_def)
    from get_rejected [OF this, of st] ok show ?thesis by auto
  next
    case (Inr r)
    with default_init_iff [of b] show ?thesis by blast
  qed
qed

theorem defaults_accept_only_bhk_1_2_witness:
  "PredictRequest_init
     \<lparr>bath = 2, balcony = 1, total_sqft_int = 1000, bhk = 3, price_per_sqft = 6000\<rparr> =
     Inl (ValidationError [ValueErrorItem area_rule_msg]) \<and>
   (1000 :: real) / real_of_int 3 < 350 \<and>
   predictor_calls (route_get_predict sample_state 3 None None None None) = [] \<and>
   response (route_get_predict sample_state 3 None None None None) = InternalServerError \<and>
   response (route_get_predict sample_state 2 None None None None) =
     OK \<lparr>predicted_price_lakhs = 61.76, feature_order = default_feature_order,
         features_used = [2, 1, 1000, 2, 6000]\<rparr>"
proof -
  have i: "PredictRequest_init
             \<lparr>bath = with_default 2 None, balcony = with_default 1 None,
              total_sqft_int = with_default 1000 None, bhk = 2,
              price_per_sqft = with_default 6000 None\<rparr> = Inr sample_request"
    using sample_init by (simp add: with_default_def sample_request_def)
  have ok: "response (route_get_predict sample_state 2 None None None None) =
     OK \<lparr>predicted_price_lakhs = 61.76, feature_order = default_feature_order,
         features_used = [2, 1, 1000, 2, 6000]\<rparr>"
    by (simp add: route_get_accepted [OF i] sample_predict respond_def)
  have p: "param_errors 3 2 1 1000 6000 = []"
    by (simp add: param_errors_def)
  from defaults_accept_only_bhk_1_2 [of 3 sample_state]
  have r: "PredictRequest_init
     \<lparr>bath = 2, balcony = 1, total_sqft_int = 1000, bhk = 3, price_per_sqft = 6000\<rparr> =
     Inl (ValidationError [ValueErrorItem area_rule_msg])"
    and a: "(1000 :: real) / real_of_int 3 < 350"
    and c: "predictor_calls (route_get_predict sample_state 3 None None None None) = []"
    by simp_all
  from get_rejected_by_rule_only [OF p r, of sample_state]
  have "route_get_predict sample_state 3 None None None None =
          \<lparr>response = InternalServerError, predictor_calls = []\<rparr>"
    by (simp add: route_get_predict_def with_default_def)
  with r a c ok show ?thesis by simp
qed

section \<open>The area rule never divides by zero\<close>



end
